theory Spec2Isabelle
  imports Complex_Main "HOL-Library.Sublist" "HOL-Library.AList"
begin

section \<open>Values and errors\<close>

text \<open>
  Python floats are modelled by \<^typ>\<open>real\<close>: the properties below concern the control
  flow and the order of the arithmetic, and the concrete inputs used are small integers, on
  which floating-point arithmetic is exact. A float subtraction or multiplication never
  raises.

  Every exception of the source is a value of \<open>error\<close>; a function that can raise
  returns \<open>error + 'a\<close> with \<open>Inl\<close> the exception.
\<close>

datatype error =
    ValueError string
  | IndexError
  | TypeError
  | ValidationError
  | ClientResponseError int string
  | TransportError string

section \<open>location.py\<close>

text \<open>
  \<^verbatim>\<open>class Location(BaseModel)\<close>: the twelve declared fields. \<open>address\<close> is an
  optional dictionary, kept as an association list. The source's \<^verbatim>\<open>class_\<close> and
  \<^verbatim>\<open>type_\<close> are \<open>class_tag\<close> and \<open>type_tag\<close> here, since a name cannot end in an
  underscore.
\<close>

record Location =
  place_id :: int
  osm_type :: string
  osm_id :: int
  lat :: real
  lon :: real
  display_name :: string
  address :: "(string \<times> string) list option"
  boundingbox :: "real list option"
  class_tag :: "string option"
  type_tag :: "string option"
  importance :: "real option"
  icon :: "string option"

text \<open>
  A keyword argument of \<^verbatim>\<open>Location(**item)\<close>. The key is missing (\<open>Absent\<close>), or
  it is given with a value that pydantic validates to the declared type of the field
  (\<open>Given v\<close>, with \<open>v\<close> the validated value; for an optional field \<open>Given None\<close>
  is an explicit \<^verbatim>\<open>None\<close>), or it is given with a value that pydantic cannot validate
  to that type (\<open>Ill_typed\<close>, as \<^verbatim>\<open>lat='north'\<close> or \<^verbatim>\<open>boundingbox=['a']\<close>).
\<close>

datatype 'a arg = Absent | Given 'a | Ill_typed

record Location_kwargs =
  kw_place_id :: "int arg"
  kw_osm_type :: "string arg"
  kw_osm_id :: "int arg"
  kw_lat :: "real arg"
  kw_lon :: "real arg"
  kw_display_name :: "string arg"
  kw_address :: "(string \<times> string) list option arg"
  kw_boundingbox :: "real list option arg"
  kw_class_tag :: "string option arg"
  kw_type_tag :: "string option arg"
  kw_importance :: "real option arg"
  kw_icon :: "string option arg"

text \<open>
  A field without a default is required: construction fails with pydantic's
  \<^verbatim>\<open>ValidationError\<close> when its key is missing. A field declared
  \<^verbatim>\<open>Optional[...] = None\<close> is \<^verbatim>\<open>None\<close> when its key is missing. A value of
  the wrong type fails the construction for either kind of field. The class declares no
  validator and no length constraint: \<^verbatim>\<open>boundingbox: Optional[List[float]] = None\<close>.
\<close>

fun required :: "'a arg \<Rightarrow> error + 'a" where
  "required Absent = Inl ValidationError"
| "required (Given v) = Inr v"
| "required Ill_typed = Inl ValidationError"

fun optional :: "'a option arg \<Rightarrow> error + 'a option" where
  "optional Absent = Inr None"
| "optional (Given v) = Inr v"
| "optional Ill_typed = Inl ValidationError"

text \<open>
  The fields are validated one after the other; \<open>and_then\<close> passes a validated value
  on and lets a failure through.
\<close>

definition and_then :: "error + 'a \<Rightarrow> ('a \<Rightarrow> error + 'b) \<Rightarrow> error + 'b" where
  "and_then m f = (case m of Inl e \<Rightarrow> Inl e | Inr v \<Rightarrow> f v)"

definition Location_init :: "Location_kwargs \<Rightarrow> error + Location" where
  "Location_init kw =
     (and_then (required (kw_place_id kw)) (\<lambda>pid.
      and_then (required (kw_osm_type kw)) (\<lambda>ot.
      and_then (required (kw_osm_id kw)) (\<lambda>oid.
      and_then (required (kw_lat kw)) (\<lambda>la.
      and_then (required (kw_lon kw)) (\<lambda>lo.
      and_then (required (kw_display_name kw)) (\<lambda>dn.
      and_then (optional (kw_address kw)) (\<lambda>ad.
      and_then (optional (kw_boundingbox kw)) (\<lambda>bb.
      and_then (optional (kw_class_tag kw)) (\<lambda>ct.
      and_then (optional (kw_type_tag kw)) (\<lambda>tt.
      and_then (optional (kw_importance kw)) (\<lambda>im.
      and_then (optional (kw_icon kw)) (\<lambda>ic.
        Inr \<lparr> place_id = pid, osm_type = ot, osm_id = oid, lat = la, lon = lo,
              display_name = dn, address = ad, boundingbox = bb, class_tag = ct,
              type_tag = tt, importance = im, icon = ic \<rparr>)))))))))))))"

text \<open>
  Python's \<^verbatim>\<open>xs[i]\<close> for a non-negative literal index: \<^verbatim>\<open>IndexError\<close> out of range.
\<close>

definition getitem :: "'a list \<Rightarrow> nat \<Rightarrow> error + 'a" where
  "getitem xs i = (if i < length xs then Inr (xs ! i) else Inl IndexError)"

text \<open>
  \<^verbatim>\<open>
  def area(self) -> float:
      if self.boundingbox:
          return (self.boundingbox[1] - self.boundingbox[0]) * (
              self.boundingbox[2] - self.boundingbox[3]
          )
      else:
          raise ValueError("Boundingbox not found")
  \<close>
  \<^verbatim>\<open>if self.boundingbox\<close> is false for \<^verbatim>\<open>None\<close> and for the empty list. The four
  subscripts are evaluated in the order 1, 0, 2, 3; whichever is out of range first raises
  \<^verbatim>\<open>IndexError\<close>.
\<close>

definition area :: "Location \<Rightarrow> error + real" where
  "area self =
     (case boundingbox self of
        None \<Rightarrow> Inl (ValueError ''Boundingbox not found'')
      | Some [] \<Rightarrow> Inl (ValueError ''Boundingbox not found'')
      | Some bb \<Rightarrow>
          (case getitem bb 1 of Inl e \<Rightarrow> Inl e | Inr b1 \<Rightarrow>
           case getitem bb 0 of Inl e \<Rightarrow> Inl e | Inr b0 \<Rightarrow>
           case getitem bb 2 of Inl e \<Rightarrow> Inl e | Inr b2 \<Rightarrow>
           case getitem bb 3 of Inl e \<Rightarrow> Inl e | Inr b3 \<Rightarrow>
             Inr ((b1 - b0) * (b2 - b3))))"

text \<open>
  \<^verbatim>\<open>geodesic(p, q).meters\<close> comes from the geopy library, which is not part of the
  repository: it is a parameter \<open>geodesic\<close>, a function from two (lat, lon) pairs to a
  distance in metres.
\<close>

type_synonym geodesic = "real \<times> real \<Rightarrow> real \<times> real \<Rightarrow> real"

definition distance_to :: "geodesic \<Rightarrow> Location \<Rightarrow> Location \<Rightarrow> real" where
  "distance_to geodesic self other = geodesic (lat self, lon self) (lat other, lon other)"

section \<open>nominatim\_search.py: post-processing\<close>

text \<open>
  \<^verbatim>\<open>
  def reduce_locations(self, locations, min_distance):
      if not locations:
          return []
      reduced_locations = [locations[0]]
      for loc in locations[1:]:
          if all(loc.distance_to(r) >= min_distance for r in reduced_locations):
              reduced_locations.append(loc)
      return reduced_locations
  \<close>
  \<open>reduce_loop\<close> is the \<^verbatim>\<open>for\<close> loop, with \<open>reduced_locations\<close> as its state.
\<close>

fun reduce_loop :: "geodesic \<Rightarrow> real \<Rightarrow> Location list \<Rightarrow> Location list \<Rightarrow> Location list" where
  "reduce_loop geodesic min_distance reduced_locations [] = reduced_locations"
| "reduce_loop geodesic min_distance reduced_locations (loc # rest) =
     reduce_loop geodesic min_distance
       (if list_all (\<lambda>r. distance_to geodesic loc r \<ge> min_distance) reduced_locations
        then reduced_locations @ [loc] else reduced_locations)
       rest"

definition reduce_locations :: "geodesic \<Rightarrow> Location list \<Rightarrow> real \<Rightarrow> Location list" where
  "reduce_locations geodesic locations min_distance =
     (case locations of
        [] \<Rightarrow> []
      | first # rest \<Rightarrow> reduce_loop geodesic min_distance [first] rest)"

section \<open>nominatim\_search.py: SearchParams\<close>

text \<open>
  \<^verbatim>\<open>class SearchParams(BaseModel)\<close>: the 27 declared fields in declaration order, and
  \<open>model_fields_set\<close>, the names of the fields that were given explicitly at
  construction (pydantic's \<^verbatim>\<open>model_fields_set\<close>).
\<close>

record SearchParams =
  q :: "string option"
  amenity :: "string option"
  street :: "string option"
  city :: "string option"
  county :: "string option"
  state :: "string option"
  country :: "string option"
  postalcode :: "string option"
  format :: string
  json_callback :: "string option"
  addressdetails :: int
  extratags :: int
  namedetails :: int
  limit :: int
  countrycodes :: "string option"
  layer :: "string option"
  featureType :: "string option"
  exclude_place_ids :: "string option"
  viewbox :: "string option"
  bounded :: int
  polygon_geojson :: int
  polygon_kml :: int
  polygon_svg :: int
  polygon_text :: int
  polygon_threshold :: real
  dedupe :: int
  debug :: int
  model_fields_set :: "string set"

text \<open>The declared defaults; nothing is set explicitly.\<close>

definition SearchParams_defaults :: SearchParams where
  "SearchParams_defaults =
     \<lparr> q = None, amenity = None, street = None, city = None, county = None, state = None,
       country = None, postalcode = None, format = ''jsonv2'', json_callback = None,
       addressdetails = 0, extratags = 0, namedetails = 0, limit = 10,
       countrycodes = None, layer = None, featureType = None, exclude_place_ids = None,
       viewbox = None, bounded = 0, polygon_geojson = 0, polygon_kml = 0, polygon_svg = 0,
       polygon_text = 0, polygon_threshold = 0, dedupe = 1, debug = 0,
       model_fields_set = {} \<rparr>"

subsection \<open>The field validators\<close>

text \<open>
  \<^verbatim>\<open>
  allowed_formats = ["xml", "json", "jsonv2", "geojson", "geocodejson"]
  if value not in allowed_formats:
      raise ValueError(f"Invalid format. Choose from: {allowed_formats}")
  return value
  \<close>
\<close>

definition allowed_formats :: "string list" where
  "allowed_formats = [''xml'', ''json'', ''jsonv2'', ''geojson'', ''geocodejson'']"

definition validate_format :: "string \<Rightarrow> error + string" where
  "validate_format value =
     (if value \<notin> set allowed_formats
      then Inl (ValueError
        ''Invalid format. Choose from: ['xml', 'json', 'jsonv2', 'geojson', 'geocodejson']'')
      else Inr value)"

text \<open>\<^verbatim>\<open>if not (1 <= value <= 40): raise ValueError(...)\<close>\<close>

definition validate_limit :: "int \<Rightarrow> error + int" where
  "validate_limit value =
     (if \<not> (1 \<le> value \<and> value \<le> 40) then Inl (ValueError ''Limit must be between 1 and 40.'')
      else Inr value)"

text \<open>\<^verbatim>\<open>if value not in (0, 1): raise ValueError(...)\<close>\<close>

definition validate_zero_one :: "int \<Rightarrow> error + int" where
  "validate_zero_one value =
     (if value \<notin> {0, 1} then Inl (ValueError ''Value must be 0 or 1.'')
      else Inr value)"

text \<open>
  \<^verbatim>\<open>value.split(",")\<close>: the tokens between the separators, one more than there are
  separators; the empty string gives one empty token.
\<close>

fun split :: "char \<Rightarrow> string \<Rightarrow> string list" where
  "split sep [] = [[]]"
| "split sep (c # cs) =
     (if c = sep then [] # split sep cs
      else (case split sep cs of
              [] \<Rightarrow> [[c]]
            | tok # toks \<Rightarrow> (c # tok) # toks))"

text \<open>
  Python's builtin \<^verbatim>\<open>float(str)\<close> is a parameter \<open>float\<close>: the parsed number, or
  \<open>None\<close> where the builtin raises \<^verbatim>\<open>ValueError\<close>.

  \<^verbatim>\<open>
  if value:
      coords = value.split(",")
      if len(coords) != 4:
          raise ValueError("Viewbox must have four comma-separated values.")
      try:
          coords = [float(coord) for coord in coords]
      except ValueError:
          raise ValueError("Viewbox coordinates must be floating-point numbers.")
  return value
  \<close>
  \<^verbatim>\<open>if value\<close> is false for \<^verbatim>\<open>None\<close> and for the empty string.
\<close>

type_synonym float_parser = "string \<Rightarrow> real option"

definition validate_viewbox :: "float_parser \<Rightarrow> string option \<Rightarrow> error + string option" where
  "validate_viewbox float value =
     (case value of
        None \<Rightarrow> Inr value
      | Some s \<Rightarrow>
          if s = [] then Inr value
          else let coords = split CHR '','' s in
            if length coords \<noteq> 4
            then Inl (ValueError ''Viewbox must have four comma-separated values.'')
            else if list_ex (\<lambda>coord. float coord = None) coords
            then Inl (ValueError ''Viewbox coordinates must be floating-point numbers.'')
            else Inr value)"

subsection \<open>Construction\<close>

text \<open>
  \<^verbatim>\<open>SearchParams(**kwargs)\<close>. A keyword argument is a field name with a value of the
  field's declared type (pydantic's coercion of values of other types is outside the
  model); \<open>K_extra\<close> is a key that names no field, which pydantic ignores. A Python
  dictionary has each key once.
\<close>

datatype kwarg =
    K_q "string option"
  | K_amenity "string option"
  | K_street "string option"
  | K_city "string option"
  | K_county "string option"
  | K_state "string option"
  | K_country "string option"
  | K_postalcode "string option"
  | K_format string
  | K_json_callback "string option"
  | K_addressdetails int
  | K_extratags int
  | K_namedetails int
  | K_limit int
  | K_countrycodes "string option"
  | K_layer "string option"
  | K_featureType "string option"
  | K_exclude_place_ids "string option"
  | K_viewbox "string option"
  | K_bounded int
  | K_polygon_geojson int
  | K_polygon_kml int
  | K_polygon_svg int
  | K_polygon_text int
  | K_polygon_threshold real
  | K_dedupe int
  | K_debug int
  | K_extra string

text \<open>
  A field that is given is validated by its \<^verbatim>\<open>@field_validator\<close>, if it has one,
  stored, and recorded in \<open>model_fields_set\<close>. A \<^verbatim>\<open>ValueError\<close> raised by a
  validator makes the construction fail with pydantic's \<^verbatim>\<open>ValidationError\<close>. A field
  that is not given keeps its default, which is not validated.
\<close>

definition assign :: "error + 'a \<Rightarrow> ('a \<Rightarrow> SearchParams) \<Rightarrow> string \<Rightarrow> error + SearchParams" where
  "assign validated store name =
     (case validated of
        Inl e \<Rightarrow> Inl ValidationError
      | Inr v \<Rightarrow> Inr ((store v)\<lparr>model_fields_set := insert name (model_fields_set (store v))\<rparr>))"

fun set_kwarg :: "float_parser \<Rightarrow> kwarg \<Rightarrow> SearchParams \<Rightarrow> error + SearchParams" where
  "set_kwarg float (K_q v) p =
     assign (Inr v) (\<lambda>v'. p\<lparr>q := v'\<rparr>) ''q''"
| "set_kwarg float (K_amenity v) p =
     assign (Inr v) (\<lambda>v'. p\<lparr>amenity := v'\<rparr>) ''amenity''"
| "set_kwarg float (K_street v) p =
     assign (Inr v) (\<lambda>v'. p\<lparr>street := v'\<rparr>) ''street''"
| "set_kwarg float (K_city v) p =
     assign (Inr v) (\<lambda>v'. p\<lparr>city := v'\<rparr>) ''city''"
| "set_kwarg float (K_county v) p =
     assign (Inr v) (\<lambda>v'. p\<lparr>county := v'\<rparr>) ''county''"
| "set_kwarg float (K_state v) p =
     assign (Inr v) (\<lambda>v'. p\<lparr>state := v'\<rparr>) ''state''"
| "set_kwarg float (K_country v) p =
     assign (Inr v) (\<lambda>v'. p\<lparr>country := v'\<rparr>) ''country''"
| "set_kwarg float (K_postalcode v) p =
     assign (Inr v) (\<lambda>v'. p\<lparr>postalcode := v'\<rparr>) ''postalcode''"
| "set_kwarg float (K_format v) p =
     assign (validate_format v) (\<lambda>v'. p\<lparr>format := v'\<rparr>) ''format''"
| "set_kwarg float (K_json_callback v) p =
     assign (Inr v) (\<lambda>v'. p\<lparr>json_callback := v'\<rparr>) ''json_callback''"
| "set_kwarg float (K_addressdetails v) p =
     assign (validate_zero_one v) (\<lambda>v'. p\<lparr>addressdetails := v'\<rparr>) ''addressdetails''"
| "set_kwarg float (K_extratags v) p =
     assign (validate_zero_one v) (\<lambda>v'. p\<lparr>extratags := v'\<rparr>) ''extratags''"
| "set_kwarg float (K_namedetails v) p =
     assign (validate_zero_one v) (\<lambda>v'. p\<lparr>namedetails := v'\<rparr>) ''namedetails''"
| "set_kwarg float (K_limit v) p =
     assign (validate_limit v) (\<lambda>v'. p\<lparr>limit := v'\<rparr>) ''limit''"
| "set_kwarg float (K_countrycodes v) p =
     assign (Inr v) (\<lambda>v'. p\<lparr>countrycodes := v'\<rparr>) ''countrycodes''"
| "set_kwarg float (K_layer v) p =
     assign (Inr v) (\<lambda>v'. p\<lparr>layer := v'\<rparr>) ''layer''"
| "set_kwarg float (K_featureType v) p =
     assign (Inr v) (\<lambda>v'. p\<lparr>featureType := v'\<rparr>) ''featureType''"
| "set_kwarg float (K_exclude_place_ids v) p =
     assign (Inr v) (\<lambda>v'. p\<lparr>exclude_place_ids := v'\<rparr>) ''exclude_place_ids''"
| "set_kwarg float (K_viewbox v) p =
     assign (validate_viewbox float v) (\<lambda>v'. p\<lparr>viewbox := v'\<rparr>) ''viewbox''"
| "set_kwarg float (K_bounded v) p =
     assign (validate_zero_one v) (\<lambda>v'. p\<lparr>bounded := v'\<rparr>) ''bounded''"
| "set_kwarg float (K_polygon_geojson v) p =
     assign (Inr v) (\<lambda>v'. p\<lparr>polygon_geojson := v'\<rparr>) ''polygon_geojson''"
| "set_kwarg float (K_polygon_kml v) p =
     assign (Inr v) (\<lambda>v'. p\<lparr>polygon_kml := v'\<rparr>) ''polygon_kml''"
| "set_kwarg float (K_polygon_svg v) p =
     assign (Inr v) (\<lambda>v'. p\<lparr>polygon_svg := v'\<rparr>) ''polygon_svg''"
| "set_kwarg float (K_polygon_text v) p =
     assign (Inr v) (\<lambda>v'. p\<lparr>polygon_text := v'\<rparr>) ''polygon_text''"
| "set_kwarg float (K_polygon_threshold v) p =
     assign (Inr v) (\<lambda>v'. p\<lparr>polygon_threshold := v'\<rparr>) ''polygon_threshold''"
| "set_kwarg float (K_dedupe v) p =
     assign (validate_zero_one v) (\<lambda>v'. p\<lparr>dedupe := v'\<rparr>) ''dedupe''"
| "set_kwarg float (K_debug v) p =
     assign (validate_zero_one v) (\<lambda>v'. p\<lparr>debug := v'\<rparr>) ''debug''"
| "set_kwarg float (K_extra name) p = Inr p"

fun set_kwargs :: "float_parser \<Rightarrow> kwarg list \<Rightarrow> SearchParams \<Rightarrow> error + SearchParams" where
  "set_kwargs float [] p = Inr p"
| "set_kwargs float (kw # kws) p =
     (case set_kwarg float kw p of
        Inl e \<Rightarrow> Inl e
      | Inr p' \<Rightarrow> set_kwargs float kws p')"

definition SearchParams_init :: "float_parser \<Rightarrow> kwarg list \<Rightarrow> error + SearchParams" where
  "SearchParams_init float kwargs = set_kwargs float kwargs SearchParams_defaults"

subsection \<open>Serialization\<close>

text \<open>The values a dumped dictionary can hold.\<close>

datatype pyval = PNone | PStr string | PInt int | PFloat real

fun of_optional :: "string option \<Rightarrow> pyval" where
  "of_optional None = PNone"
| "of_optional (Some s) = PStr s"

text \<open>The fields of an instance with their values, in declaration order.\<close>

definition model_items :: "SearchParams \<Rightarrow> (string \<times> pyval) list" where
  "model_items p =
     [(''q'', of_optional (q p)),
      (''amenity'', of_optional (amenity p)),
      (''street'', of_optional (street p)),
      (''city'', of_optional (city p)),
      (''county'', of_optional (county p)),
      (''state'', of_optional (state p)),
      (''country'', of_optional (country p)),
      (''postalcode'', of_optional (postalcode p)),
      (''format'', PStr (format p)),
      (''json_callback'', of_optional (json_callback p)),
      (''addressdetails'', PInt (addressdetails p)),
      (''extratags'', PInt (extratags p)),
      (''namedetails'', PInt (namedetails p)),
      (''limit'', PInt (limit p)),
      (''countrycodes'', of_optional (countrycodes p)),
      (''layer'', of_optional (layer p)),
      (''featureType'', of_optional (featureType p)),
      (''exclude_place_ids'', of_optional (exclude_place_ids p)),
      (''viewbox'', of_optional (viewbox p)),
      (''bounded'', PInt (bounded p)),
      (''polygon_geojson'', PInt (polygon_geojson p)),
      (''polygon_kml'', PInt (polygon_kml p)),
      (''polygon_svg'', PInt (polygon_svg p)),
      (''polygon_text'', PInt (polygon_text p)),
      (''polygon_threshold'', PFloat (polygon_threshold p)),
      (''dedupe'', PInt (dedupe p)),
      (''debug'', PInt (debug p))]"

text \<open>
  \<^verbatim>\<open>params.model_dump(exclude_none=..., exclude_unset=...)\<close>: \<open>exclude_unset\<close>
  drops the fields that are not in \<open>model_fields_set\<close>, \<open>exclude_none\<close> the fields
  whose value is \<^verbatim>\<open>None\<close>.
\<close>

definition model_dump :: "bool \<Rightarrow> bool \<Rightarrow> SearchParams \<Rightarrow> (string \<times> pyval) list" where
  "model_dump exclude_none exclude_unset p =
     filter (\<lambda>(name, v).
               (if exclude_unset then name \<in> model_fields_set p else True) \<and>
               (if exclude_none then v \<noteq> PNone else True))
       (model_items p)"

text \<open>
  \<^verbatim>\<open>
  params_dict = params.model_dump(exclude_none=True, exclude_unset=True)
  params_dict.update({"format": "jsonv2"})
  \<close>
  \<^verbatim>\<open>dict.update\<close> replaces the value of a key that is there, in place, and appends a
  key that is not.
\<close>

definition params_dict :: "SearchParams \<Rightarrow> (string \<times> pyval) list" where
  "params_dict params =
     AList.update ''format'' (PStr ''jsonv2'') (model_dump True True params)"

section \<open>nominatim\_search.py: NominatimSearch\<close>

record NominatimSearch =
  base_url :: string
  user_agent :: "string option"
  email :: "string option"

text \<open>
  \<^verbatim>\<open>params: Union[str, Dict, SearchParams]\<close>, and \<open>Q_other\<close> for a value of any
  other type.
\<close>

datatype query = Q_str string | Q_dict "kwarg list" | Q_params SearchParams | Q_other

text \<open>
  The HTTP exchange is outside the repository: \<open>session_get\<close> is a parameter that gives,
  for the request sent, the response received (its status, its reason and the decoded JSON
  array, one set of keyword arguments per item), or the exception the transport raised.
\<close>

record request =
  req_url :: string
  req_params :: "(string \<times> pyval) list"
  req_headers :: "(string \<times> string) list"

record response =
  status :: int
  reason :: string
  json :: "Location_kwargs list"

type_synonym session_get = "request \<Rightarrow> error + response"

text \<open>
  \<^verbatim>\<open>
  if isinstance(params, str):
      params = SearchParams(q=params)
  elif isinstance(params, dict):
      params = SearchParams(**params)
  elif not isinstance(params, SearchParams):
      raise TypeError("Invalid parameters. Must be str, dict, or SearchParams.")
  \<close>
\<close>

fun coerce_params :: "float_parser \<Rightarrow> query \<Rightarrow> error + SearchParams" where
  "coerce_params float (Q_str s) = SearchParams_init float [K_q (Some s)]"
| "coerce_params float (Q_dict d) = SearchParams_init float d"
| "coerce_params float (Q_params p) = Inr p"
| "coerce_params float Q_other = Inl TypeError"

text \<open>\<^verbatim>\<open>[Location(**item) for item in data]\<close>: the first item that fails raises.\<close>

fun parse_items :: "Location_kwargs list \<Rightarrow> error + Location list" where
  "parse_items [] = Inr []"
| "parse_items (item # items) =
     (case Location_init item of
        Inl e \<Rightarrow> Inl e
      | Inr loc \<Rightarrow>
          (case parse_items items of
             Inl e \<Rightarrow> Inl e
           | Inr locs \<Rightarrow> Inr (loc # locs)))"

text \<open>
  \<^verbatim>\<open>
  headers = {}
  if self.user_agent:
      headers["User-Agent"] = self.user_agent
  \<close>
\<close>

definition make_headers :: "NominatimSearch \<Rightarrow> (string \<times> string) list" where
  "make_headers self =
     (case user_agent self of
        None \<Rightarrow> []
      | Some ua \<Rightarrow> if ua = [] then [] else [(''User-Agent'', ua)])"

text \<open>
  \<^verbatim>\<open>
  async with session.get(self.base_url, params=params_dict, headers=headers) as response:
      if response.status == 200:
          data = await response.json()
          return [Location(**item) for item in data]
      else:
          raise aiohttp.ClientResponseError(..., status=response.status,
                                            message=response.reason, ...)
  \<close>
\<close>

definition search ::
  "float_parser \<Rightarrow> NominatimSearch \<Rightarrow> session_get \<Rightarrow> query \<Rightarrow> error + Location list" where
  "search float self session_get params =
     (case coerce_params float params of
        Inl e \<Rightarrow> Inl e
      | Inr params' \<Rightarrow>
          (case session_get \<lparr> req_url = base_url self, req_params = params_dict params',
                               req_headers = make_headers self \<rparr> of
             Inl e \<Rightarrow> Inl e
           | Inr response \<Rightarrow>
               if status response = 200 then parse_items (json response)
               else Inl (ClientResponseError (status response) (reason response))))"

text \<open>
  \<^verbatim>\<open>
  tasks = [self.search(query) for query in queries]
  results = await asyncio.gather(*tasks, return_exceptions=True)
  return results
  \<close>
  A task is a coroutine that has not run yet: a function of \<open>unit\<close>. With
  \<^verbatim>\<open>return_exceptions=True\<close>, \<^verbatim>\<open>gather\<close> awaits every task and returns the outcomes
  in the order of the tasks, an exception as the value of its slot. The searches share no
  state, so the outcome of each is the one it has alone.
\<close>

definition gather_return_exceptions :: "(unit \<Rightarrow> error + 'a) list \<Rightarrow> (error + 'a) list" where
  "gather_return_exceptions tasks = map (\<lambda>task. task ()) tasks"

definition search_multiple ::
  "float_parser \<Rightarrow> NominatimSearch \<Rightarrow> session_get \<Rightarrow> query list \<Rightarrow> (error + Location list) list" where
  "search_multiple float self session_get queries =
     (let tasks = map (\<lambda>query. (\<lambda>_. search float self session_get query)) queries
      in gather_return_exceptions tasks)"

subsection \<open>Sorting\<close>

text \<open>
  \<^verbatim>\<open>sorted(locations, key=lambda x: x.importance, reverse=True)\<close>. The keys are
  \<^verbatim>\<open>Optional[float]\<close>; Python's \<^verbatim>\<open><\<close> between two floats compares them, and raises
  \<^verbatim>\<open>TypeError\<close> when an operand is \<^verbatim>\<open>None\<close>.
\<close>

fun py_lt :: "real option \<Rightarrow> real option \<Rightarrow> error + bool" where
  "py_lt (Some a) (Some b) = Inr (a < b)"
| "py_lt _ _ = Inl TypeError"

text \<open>
  \<^verbatim>\<open>sorted\<close> is a stable comparison sort that uses only \<^verbatim>\<open><\<close> on the keys and
  lets an exception of a comparison through; it is modelled by insertion from the right.
  With \<^verbatim>\<open>reverse=True\<close> the list is reversed, sorted, and reversed again, which keeps
  elements with equal keys in their original order.
\<close>

fun insort_lt :: "('a \<Rightarrow> real option) \<Rightarrow> 'a \<Rightarrow> 'a list \<Rightarrow> error + 'a list" where
  "insort_lt key x [] = Inr [x]"
| "insort_lt key x (y # ys) =
     (case py_lt (key y) (key x) of
        Inl e \<Rightarrow> Inl e
      | Inr smaller \<Rightarrow>
          if smaller
          then (case insort_lt key x ys of Inl e \<Rightarrow> Inl e | Inr zs \<Rightarrow> Inr (y # zs))
          else Inr (x # y # ys))"

fun sort_lt :: "('a \<Rightarrow> real option) \<Rightarrow> 'a list \<Rightarrow> error + 'a list" where
  "sort_lt key [] = Inr []"
| "sort_lt key (x # xs) =
     (case sort_lt key xs of
        Inl e \<Rightarrow> Inl e
      | Inr ys \<Rightarrow> insort_lt key x ys)"

definition sorted_py :: "('a \<Rightarrow> real option) \<Rightarrow> bool \<Rightarrow> 'a list \<Rightarrow> error + 'a list" where
  "sorted_py key reverse xs =
     (if reverse
      then (case sort_lt key (rev xs) of Inl e \<Rightarrow> Inl e | Inr ys \<Rightarrow> Inr (rev ys))
      else sort_lt key xs)"

definition sort_by_importance :: "Location list \<Rightarrow> error + Location list" where
  "sort_by_importance locations = sorted_py importance True locations"

section \<open>Auxiliary notions for the statements\<close>

text \<open>
  A list is \<open>separated\<close> when each element is at distance at least \<open>d\<close> to every
  element before it, the distance taken from the later element, as \<open>reduce_locations\<close>
  takes it. \<open>separated_rev\<close> reads the list from its end.
\<close>

fun separated_rev :: "geodesic \<Rightarrow> real \<Rightarrow> Location list \<Rightarrow> bool" where
  "separated_rev g d [] = True"
| "separated_rev g d (k # earlier) =
     (list_all (\<lambda>r. distance_to g k r \<ge> d) earlier \<and> separated_rev g d earlier)"

definition separated :: "geodesic \<Rightarrow> real \<Rightarrow> Location list \<Rightarrow> bool" where
  "separated g d ks = separated_rev g d (rev ks)"

text \<open>
  A viewbox string passes the two checks of \<open>validate_viewbox\<close>: four tokens, each
  accepted by \<open>float\<close>.
\<close>

definition four_floats :: "float_parser \<Rightarrow> string \<Rightarrow> bool" where
  "four_floats float s =
     (length (split CHR '','' s) = 4 \<and> list_all (\<lambda>tok. float tok \<noteq> None) (split CHR '','' s))"

section \<open>Inputs of the examples\<close>

text \<open>
  The examples need a distance and a number parser to compute with. \<open>taxicab\<close> is a
  symmetric distance on coordinate pairs, and \<open>digits_float\<close> reads a non-empty string
  of decimal digits (which Python's \<^verbatim>\<open>float\<close> accepts too) and rejects everything
  else. They stand in for geopy's geodesic and for the builtin in the examples only; every
  general statement below is about an arbitrary \<open>geodesic\<close> and \<open>float\<close>.
\<close>

definition taxicab :: geodesic where
  "taxicab a b = \<bar>fst a - fst b\<bar> + \<bar>snd a - snd b\<bar>"

definition digits_float :: float_parser where
  "digits_float s =
     (if s \<noteq> [] \<and> list_all (\<lambda>c. c \<in> set ''0123456789'') s
      then Some (real (foldl (\<lambda>n c. 10 * n + (of_char c - 48)) 0 s))
      else None)"

definition place :: "int \<Rightarrow> real \<Rightarrow> real \<Rightarrow> Location" where
  "place n la lo =
     \<lparr> place_id = n, osm_type = ''node'', osm_id = n, lat = la, lon = lo,
       display_name = ''place'', address = None, boundingbox = None, class_tag = None,
       type_tag = None, importance = None, icon = None \<rparr>"

definition item :: "int \<Rightarrow> Location_kwargs" where
  "item n =
     \<lparr> kw_place_id = Given n, kw_osm_type = Given ''node'', kw_osm_id = Given n,
       kw_lat = Given 0, kw_lon = Given 0, kw_display_name = Given ''place'',
       kw_address = Absent, kw_boundingbox = Absent, kw_class_tag = Absent,
       kw_type_tag = Absent, kw_importance = Absent, kw_icon = Absent \<rparr>"

definition client :: NominatimSearch where
  "client = \<lparr> base_url = ''https://nominatim.openstreetmap.org/search'',
              user_agent = None, email = None \<rparr>"

text \<open>A server that answers every request with status 200 and one item.\<close>

definition one_result :: session_get where
  "one_result request = Inr \<lparr> status = 200, reason = ''OK'', json = [item 1] \<rparr>"

section \<open>Properties\<close>

subsection \<open>Separated lists and the loop\<close>

lemma separated_Nil: "separated g d []" by (simp add: separated_def)
lemma separated_single: "separated g d [k]" by (simp add: separated_def)
lemma separated_snoc:
  "separated g d (ks @ [k]) = (list_all (\<lambda>r. distance_to g k r \<ge> d) ks \<and> separated g d ks)"
  by (simp add: separated_def list_all_iff)

lemma separated_append_left: "separated g d (as @ bs) \<Longrightarrow> separated g d as"
  by (induction bs rule: rev_induct) (simp_all add: separated_snoc flip: append_assoc)

lemma reduce_loop_snoc:
  "reduce_loop g d kept (xs @ [x]) =
     (if list_all (\<lambda>r. distance_to g x r \<ge> d) (reduce_loop g d kept xs)
      then reduce_loop g d kept xs @ [x] else reduce_loop g d kept xs)"
  by (induction xs arbitrary: kept) simp_all

lemma reduce_loop_separated:
  "separated g d kept \<Longrightarrow> separated g d (reduce_loop g d kept xs)"
  by (induction xs arbitrary: kept) (simp_all add: separated_snoc)

lemma reduce_loop_fixed:
  "separated g d (kept @ ys) \<Longrightarrow> reduce_loop g d kept ys = kept @ ys"
proof (induction ys arbitrary: kept)
  case Nil
  then show ?case by simp
next
  case (Cons y ys)
  have all: "separated g d ((kept @ [y]) @ ys)" using Cons.prems by simp
  then have "separated g d (kept @ [y])" by (rule separated_append_left)
  then have "list_all (\<lambda>r. distance_to g y r \<ge> d) kept" by (simp add: separated_snoc)
  then show ?case using Cons.IH [OF all] by simp
qed

lemma reduce_loop_extends: "\<exists>ys. reduce_loop g d kept xs = kept @ ys \<and> subseq ys xs"
proof (induction xs arbitrary: kept)
  case Nil
  then show ?case by simp
next
  case (Cons x xs)
  show ?case
  proof (cases "list_all (\<lambda>r. distance_to g x r \<ge> d) kept")
    case True
    from Cons.IH [of "kept @ [x]"] obtain ys
      where "reduce_loop g d (kept @ [x]) xs = (kept @ [x]) @ ys" "subseq ys xs" by blast
    then have "reduce_loop g d kept (x # xs) = kept @ (x # ys) \<and> subseq (x # ys) (x # xs)"
      using True by simp
    then show ?thesis by blast
  next
    case False
    from Cons.IH [of kept] obtain ys
      where "reduce_loop g d kept xs = kept @ ys" "subseq ys xs" by blast
    then have "reduce_loop g d kept (x # xs) = kept @ ys \<and> subseq ys (x # xs)"
      using False by (simp add: list_emb_Cons)
    then show ?thesis by blast
  qed
qed

lemma separated_nth:
  "separated g d ks = (\<forall>j < length ks. \<forall>i < j. distance_to g (ks ! j) (ks ! i) \<ge> d)"
proof (induction ks rule: rev_induct)
  case Nil
  then show ?case by (simp add: separated_Nil)
next
  case (snoc k ks)
  have "list_all (\<lambda>r. distance_to g k r \<ge> d) ks = (\<forall>i < length ks. distance_to g k (ks ! i) \<ge> d)"
    by (simp add: list_all_length)
  then show ?case using snoc
    by (auto simp: separated_snoc nth_append less_Suc_eq)
qed

subsection \<open>reduce\_locations\<close>

text \<open>
  C1. \<open>reduce_locations\<close> is a greedy single pass: the empty list gives the empty list
  for every \<open>min_distance\<close>; a one-element list is returned as it is; the result of a
  non-empty list starts with its first location; and a location \<open>x\<close> that comes after
  the non-empty list \<open>l # ls\<close> is appended to what was kept of \<open>l # ls\<close> exactly when
  its distance to every kept location is at least \<open>min_distance\<close>, and is dropped
  otherwise, leaving what was kept before unchanged.
\<close>

theorem reduce_locations_greedy:
  "reduce_locations g [] d = [] \<and>
   reduce_locations g [l] d = [l] \<and>
   (\<exists>kept. reduce_locations g (l # ls) d = l # kept) \<and>
   reduce_locations g (l # ls @ [x]) d =
     (if list_all (\<lambda>r. distance_to g x r \<ge> d) (reduce_locations g (l # ls) d)
      then reduce_locations g (l # ls) d @ [x]
      else reduce_locations g (l # ls) d)"
proof -
  from reduce_loop_extends [of g d "[l]" ls] obtain ys
    where "reduce_loop g d [l] ls = [l] @ ys" by blast
  then have "\<exists>kept. reduce_locations g (l # ls) d = l # kept"
    by (simp add: reduce_locations_def)
  moreover have "reduce_locations g (l # ls @ [x]) d =
     (if list_all (\<lambda>r. distance_to g x r \<ge> d) (reduce_locations g (l # ls) d)
      then reduce_locations g (l # ls) d @ [x]
      else reduce_locations g (l # ls) d)"
    by (simp only: reduce_locations_def list.case reduce_loop_snoc)
  ultimately show ?thesis by (simp add: reduce_locations_def)
qed

theorem reduce_locations_greedy_witness:
  "reduce_locations taxicab [place 1 0 0, place 2 50 0, place 3 45 155] 100 =
     [place 1 0 0, place 3 45 155]"
proof -
  have one: "reduce_locations taxicab [place 1 0 0] 100 = [place 1 0 0]"
    using reduce_locations_greedy [of taxicab 100 "place 1 0 0" "[]" "place 1 0 0"] by simp
  have two: "reduce_locations taxicab [place 1 0 0, place 2 50 0] 100 = [place 1 0 0]"
    using reduce_locations_greedy [of taxicab 100 "place 1 0 0" "[]" "place 2 50 0"] one
    by (simp add: distance_to_def taxicab_def place_def)
  show ?thesis
    using reduce_locations_greedy [of taxicab 100 "place 1 0 0" "[place 2 50 0]" "place 3 45 155"] two
    by (simp add: distance_to_def taxicab_def place_def)
qed

text \<open>
  C9. For every input list and every \<open>min_distance\<close>, the result of
  \<open>reduce_locations\<close> is a subsequence of the input in the original order, and of any
  two positions of the result the later location is at \<open>distance_to\<close> at least
  \<open>min_distance\<close> to the earlier one (the direction the code compares). Where the
  distance is symmetric, any two different positions of the result are that far from
  each other in both directions.
\<close>

theorem reduce_locations_separated_subseq:
  "subseq (reduce_locations g xs d) xs \<and>
   (\<forall>j < length (reduce_locations g xs d). \<forall>i < j.
      d \<le> distance_to g (reduce_locations g xs d ! j) (reduce_locations g xs d ! i)) \<and>
   ((\<forall>a b. g a b = g b a) \<longrightarrow>
    (\<forall>i < length (reduce_locations g xs d). \<forall>j < length (reduce_locations g xs d).
       i \<noteq> j \<longrightarrow>
       d \<le> distance_to g (reduce_locations g xs d ! i) (reduce_locations g xs d ! j)))"
proof -
  let ?out = "reduce_locations g xs d"
  have sub: "subseq ?out xs"
  proof (cases xs)
    case Nil
    then show ?thesis by (simp add: reduce_locations_def)
  next
    case (Cons x rest)
    from reduce_loop_extends [of g d "[x]" rest] obtain ys
      where "reduce_loop g d [x] rest = [x] @ ys" "subseq ys rest" by blast
    then show ?thesis using Cons by (simp add: reduce_locations_def)
  qed
  have "separated g d ?out"
    by (cases xs)
      (simp_all add: reduce_locations_def separated_Nil reduce_loop_separated separated_single)
  then have later: "\<forall>j < length ?out. \<forall>i < j. d \<le> distance_to g (?out ! j) (?out ! i)"
    by (simp add: separated_nth)
  have both: "d \<le> distance_to g (?out ! i) (?out ! j)"
    if sym: "\<forall>a b. g a b = g b a" and i: "i < length ?out" and j: "j < length ?out"
      and ne: "i \<noteq> j" for i j
  proof (cases "i < j")
    case True
    then have "d \<le> distance_to g (?out ! j) (?out ! i)" using later j by blast
    moreover have "distance_to g (?out ! j) (?out ! i) = distance_to g (?out ! i) (?out ! j)"
      using sym by (simp add: distance_to_def)
    ultimately show ?thesis by simp
  next
    case False
    then have "j < i" using ne by simp
    then show ?thesis using later i by blast
  qed
  show ?thesis using sub later both by blast
qed

theorem reduce_locations_separated_subseq_witness:
  "subseq [place 1 0 0, place 3 45 155] [place 1 0 0, place 2 50 0, place 3 45 155] \<and>
   100 \<le> distance_to taxicab (place 3 45 155) (place 1 0 0) \<and>
   100 \<le> distance_to taxicab (place 1 0 0) (place 3 45 155)"
proof -
  let ?xs = "[place 1 0 0, place 2 50 0, place 3 45 155]"
  have out: "reduce_locations taxicab ?xs 100 = [place 1 0 0, place 3 45 155]"
    by (simp add: reduce_locations_def distance_to_def taxicab_def place_def)
  have sym: "\<forall>a b. taxicab a b = taxicab b a"
    by (simp add: taxicab_def abs_minus_commute)
  note inst = reduce_locations_separated_subseq [of taxicab ?xs 100, unfolded out]
  from inst have "subseq [place 1 0 0, place 3 45 155] ?xs" by blast
  moreover from inst have "100 \<le> distance_to taxicab ([place 1 0 0, place 3 45 155] ! 1)
      ([place 1 0 0, place 3 45 155] ! 0)"
    by (metis length_Cons list.size(3) lessI One_nat_def)
  moreover from inst sym have "100 \<le> distance_to taxicab ([place 1 0 0, place 3 45 155] ! 0)
      ([place 1 0 0, place 3 45 155] ! 1)"
    by (metis length_Cons list.size(3) lessI One_nat_def zero_less_Suc zero_neq_one)
  ultimately show ?thesis by simp
qed

text \<open>
  C10. \<open>reduce_locations\<close> is idempotent: reducing a reduced list with the same
  \<open>min_distance\<close> returns it unchanged.
\<close>

theorem reduce_locations_idempotent:
  "reduce_locations g (reduce_locations g xs d) d = reduce_locations g xs d"
proof (cases xs)
  case Nil
  then show ?thesis by (simp add: reduce_locations_def)
next
  case (Cons x rest)
  from reduce_loop_extends [of g d "[x]" rest] obtain ys
    where ys: "reduce_loop g d [x] rest = [x] @ ys" by blast
  have "separated g d (reduce_loop g d [x] rest)"
    by (rule reduce_loop_separated) (rule separated_single)
  then have "separated g d ([x] @ ys)" using ys by simp
  then have "reduce_loop g d [x] ys = [x] @ ys" by (rule reduce_loop_fixed)
  then show ?thesis using Cons ys by (simp add: reduce_locations_def)
qed

theorem reduce_locations_idempotent_witness:
  "reduce_locations taxicab [place 1 0 0, place 3 45 155] 100 = [place 1 0 0, place 3 45 155]"
proof -
  have out: "reduce_locations taxicab [place 1 0 0, place 2 50 0, place 3 45 155] 100 =
      [place 1 0 0, place 3 45 155]"
    by (simp add: reduce_locations_def distance_to_def taxicab_def place_def)
  show ?thesis
    using reduce_locations_idempotent [of taxicab "[place 1 0 0, place 2 50 0, place 3 45 155]" 100]
    by (simp only: out)
qed

subsection \<open>Location\<close>

lemma area_four: "boundingbox self = Some [s, n, w, e] \<Longrightarrow> area self = Inr ((n - s) * (w - e))"
  by (simp add: area_def getitem_def)

text \<open>
  C2. The claim is that \<open>area\<close> of the box [south, north, west, east] is
  (north - south) * (east - west), 10 for [10, 12, 20, 25]. The code subtracts index 3
  from index 2, that is east from west: for [10, 12, 20, 25] it returns
  (12 - 10) * (20 - 25) = -10.
\<close>

theorem area_example_is_negative:
  "area ((place 1 0 0)\<lparr>boundingbox := Some [10, 12, 20, 25]\<rparr>) = Inr (- 10)"
  by (simp add: area_def getitem_def)

text \<open>
  C8. \<open>area\<close> raises the \<^verbatim>\<open>ValueError\<close> ``Boundingbox not found'' when the location
  has no bounding box, and returns a number, raising nothing, when the bounding box has
  exactly four elements.
\<close>

theorem area_raises_iff_missing:
  "(boundingbox self = None \<longrightarrow> area self = Inl (ValueError ''Boundingbox not found'')) \<and>
   (\<forall>bb. boundingbox self = Some bb \<and> length bb = 4 \<longrightarrow> (\<exists>a. area self = Inr a))"
proof -
  have "\<exists>a. area self = Inr a" if bb: "boundingbox self = Some bb" and len: "length bb = 4" for bb
  proof -
    from len obtain s n w e where "bb = [s, n, w, e]"
      by (auto simp: length_Suc_conv numeral_eq_Suc)
    with bb show ?thesis by (simp add: area_four)
  qed
  then show ?thesis by (simp add: area_def)
qed

theorem area_raises_iff_missing_witness:
  "area (place 1 0 0) = Inl (ValueError ''Boundingbox not found'') \<and>
   (\<exists>a. area ((place 1 0 0)\<lparr>boundingbox := Some [10, 12, 20, 25]\<rparr>) = Inr a)"
proof -
  have "area (place 1 0 0) = Inl (ValueError ''Boundingbox not found'')"
    using area_raises_iff_missing [of "place 1 0 0"] by (simp add: place_def)
  moreover have "\<exists>a. area ((place 1 0 0)\<lparr>boundingbox := Some [10, 12, 20, 25]\<rparr>) = Inr a"
    using area_raises_iff_missing [of "(place 1 0 0)\<lparr>boundingbox := Some [10, 12, 20, 25]\<rparr>"]
    by simp
  ultimately show ?thesis by simp
qed

lemma and_then_Inr: "and_then m f = Inr r \<longleftrightarrow> (\<exists>v. m = Inr v \<and> f v = Inr r)"
  by (cases m) (auto simp: and_then_def)

lemma required_Inr: "required a = Inr v \<longleftrightarrow> a = Given v"
  by (cases a) auto

lemma optional_Inr: "optional a = Inr v \<longleftrightarrow> (a = Absent \<and> v = None) \<or> a = Given v"
  by (cases a) auto

lemma Location_init_Inr:
  "Location_init kw = Inr loc \<longleftrightarrow>
     required (kw_place_id kw) = Inr (place_id loc) \<and>
     required (kw_osm_type kw) = Inr (osm_type loc) \<and>
     required (kw_osm_id kw) = Inr (osm_id loc) \<and>
     required (kw_lat kw) = Inr (lat loc) \<and>
     required (kw_lon kw) = Inr (lon loc) \<and>
     required (kw_display_name kw) = Inr (display_name loc) \<and>
     optional (kw_address kw) = Inr (address loc) \<and>
     optional (kw_boundingbox kw) = Inr (boundingbox loc) \<and>
     optional (kw_class_tag kw) = Inr (class_tag loc) \<and>
     optional (kw_type_tag kw) = Inr (type_tag loc) \<and>
     optional (kw_importance kw) = Inr (importance loc) \<and>
     optional (kw_icon kw) = Inr (icon loc)"
  unfolding Location_init_def
  by (cases loc) (auto simp: and_then_Inr)

lemma Location_init_ill_typed:
  "Location_init (kw\<lparr>kw_lat := Ill_typed\<rparr>) \<noteq> Inr loc \<and>
   Location_init (kw\<lparr>kw_boundingbox := Ill_typed\<rparr>) \<noteq> Inr loc"
  by (simp add: Location_init_Inr)

text \<open>
  C7, as claimed, fails: a location with a bounding box of two elements is constructed.
\<close>

theorem Location_init_short_boundingbox:
  "Location_init ((item 1)\<lparr>kw_boundingbox := Given (Some [1, 2])\<rparr>) =
     Inr ((place 1 0 0)\<lparr>boundingbox := Some [1, 2]\<rparr>) \<and>
   map_option length (boundingbox ((place 1 0 0)\<lparr>boundingbox := Some [1, 2]\<rparr>)) = Some 2"
  by (simp add: Location_init_def and_then_def item_def place_def)

text \<open>
  C7, amended. A constructed location has the bounding box it was given, unchanged: none
  when the key is missing, and otherwise the given value, which is \<^verbatim>\<open>None\<close> or the given
  list of floats in the given order, whatever its length. The length is not checked: a
  construction that succeeds also succeeds with any list of floats, of any length, given as
  the bounding box, and then the location has that list.
\<close>

theorem Location_init_keeps_boundingbox:
  "(\<forall>loc. Location_init kw = Inr loc \<longrightarrow>
      (kw_boundingbox kw = Absent \<longrightarrow> boundingbox loc = None) \<and>
      (\<forall>box. kw_boundingbox kw = Given box \<longrightarrow> boundingbox loc = box)) \<and>
   (\<forall>loc bb. Location_init kw = Inr loc \<longrightarrow>
      Location_init (kw\<lparr>kw_boundingbox := Given (Some bb)\<rparr>) =
        Inr (loc\<lparr>boundingbox := Some bb\<rparr>))"
proof -
  have kept: "(kw_boundingbox kw = Absent \<longrightarrow> boundingbox loc = None) \<and>
      (\<forall>box. kw_boundingbox kw = Given box \<longrightarrow> boundingbox loc = box)"
    if "Location_init kw = Inr loc" for loc
  proof -
    from that have "optional (kw_boundingbox kw) = Inr (boundingbox loc)"
      by (simp add: Location_init_Inr)
    then show ?thesis by (auto simp: optional_Inr)
  qed
  have any: "Location_init (kw\<lparr>kw_boundingbox := Given (Some bb)\<rparr>) =
      Inr (loc\<lparr>boundingbox := Some bb\<rparr>)"
    if "Location_init kw = Inr loc" for loc bb
    using that by (simp add: Location_init_Inr)
  show ?thesis using kept any by blast
qed

theorem Location_init_keeps_boundingbox_witness:
  "Location_init ((item 1)\<lparr>kw_boundingbox := Given (Some [1, 2, 3, 4, 5])\<rparr>) =
     Inr ((place 1 0 0)\<lparr>boundingbox := Some [1, 2, 3, 4, 5]\<rparr>) \<and>
   boundingbox (place 1 0 0) = None"
proof -
  have made: "Location_init (item 1) = Inr (place 1 0 0)"
    by (simp add: Location_init_def and_then_def item_def place_def)
  have absent: "kw_boundingbox (item 1) = Absent"
    by (simp add: item_def)
  note inst = Location_init_keeps_boundingbox [of "item 1"]
  note kept = inst [THEN conjunct1, rule_format, OF made, THEN conjunct1, rule_format, OF absent]
  note any = inst [THEN conjunct2, rule_format, OF made, of "[1, 2, 3, 4, 5]"]
  show ?thesis using kept any by simp
qed

subsection \<open>Sorting by importance\<close>

lemma insort_lt_Inr:
  "insort_lt key x ys = Inr zs \<Longrightarrow> set zs = insert x (set ys) \<and> length zs = Suc (length ys)"
proof (induction ys arbitrary: zs)
  case Nil
  then show ?case by auto
next
  case (Cons y ys)
  show ?case
  proof (cases "py_lt (key y) (key x)")
    case (Inl e)
    with Cons.prems show ?thesis by simp
  next
    case (Inr smaller)
    show ?thesis
    proof (cases smaller)
      case True
      with Inr Cons.prems obtain ws where ws: "insort_lt key x ys = Inr ws" and zs: "zs = y # ws"
        by (cases "insort_lt key x ys") auto
      from Cons.IH [OF ws] zs show ?thesis by auto
    next
      case False
      with Inr Cons.prems have "zs = x # y # ys" by auto
      then show ?thesis by auto
    qed
  qed
qed

lemma sort_lt_Inr: "sort_lt key xs = Inr ys \<Longrightarrow> set ys = set xs \<and> length ys = length xs"
proof (induction xs arbitrary: ys)
  case Nil
  then show ?case by simp
next
  case (Cons x xs)
  from Cons.prems obtain ws where ws: "sort_lt key xs = Inr ws" and ins: "insort_lt key x ws = Inr ys"
    by (cases "sort_lt key xs") auto
  from Cons.IH [OF ws] insort_lt_Inr [OF ins] show ?case by simp
qed

lemma py_lt_error: "py_lt a b = Inl e \<Longrightarrow> e = TypeError"
  by (cases a; cases b) simp_all

lemma insort_lt_error: "insort_lt key x ys = Inl e \<Longrightarrow> e = TypeError"
proof (induction ys)
  case Nil
  then show ?case by simp
next
  case (Cons y ys)
  show ?case
  proof (cases "py_lt (key y) (key x)")
    case (Inl e')
    with Cons.prems py_lt_error [OF Inl] show ?thesis by simp
  next
    case (Inr smaller)
    show ?thesis
    proof (cases smaller)
      case True
      with Inr Cons.prems have "insort_lt key x ys = Inl e"
        by (cases "insort_lt key x ys") auto
      then show ?thesis by (rule Cons.IH)
    next
      case False
      with Inr Cons.prems show ?thesis by simp
    qed
  qed
qed

lemma sort_lt_error: "sort_lt key xs = Inl e \<Longrightarrow> e = TypeError"
proof (induction xs)
  case Nil
  then show ?case by simp
next
  case (Cons x xs)
  show ?case
  proof (cases "sort_lt key xs")
    case (Inl e')
    with Cons.prems have "sort_lt key xs = Inl e" by simp
    then show ?thesis by (rule Cons.IH)
  next
    case (Inr ws)
    with Cons.prems have "insort_lt key x ws = Inl e" by simp
    then show ?thesis by (rule insort_lt_error)
  qed
qed

lemma insort_lt_scored:
  "key x \<noteq> None \<Longrightarrow> \<forall>y \<in> set ys. key y \<noteq> None \<Longrightarrow> \<exists>zs. insort_lt key x ys = Inr zs"
proof (induction ys)
  case Nil
  then show ?case by simp
next
  case (Cons y ys)
  from Cons.prems obtain a b where ab: "key y = Some a" "key x = Some b" by auto
  from Cons obtain ws where ws: "insort_lt key x ys = Inr ws" by auto
  show ?case using ab ws by simp
qed

lemma sort_lt_scored: "\<forall>x \<in> set xs. key x \<noteq> None \<Longrightarrow> \<exists>ys. sort_lt key xs = Inr ys"
proof (induction xs)
  case Nil
  then show ?case by simp
next
  case (Cons x xs)
  then obtain ys where ys: "sort_lt key xs = Inr ys" by auto
  have "set ys = set xs" using sort_lt_Inr [OF ys] by simp
  then have "\<forall>y \<in> set ys. key y \<noteq> None" using Cons.prems by simp
  moreover have "key x \<noteq> None" using Cons.prems by simp
  ultimately obtain zs where "insort_lt key x ys = Inr zs"
    using insort_lt_scored [of key x ys] by blast
  then show ?case using ys by simp
qed

lemma insort_lt_compares:
  "insort_lt key x (y # ys) = Inr zs \<Longrightarrow> key x \<noteq> None \<and> key y \<noteq> None"
  by (cases "key y"; cases "key x") simp_all

lemma sort_lt_compares:
  "sort_lt key xs = Inr ys \<Longrightarrow> 2 \<le> length xs \<Longrightarrow> \<forall>x \<in> set xs. key x \<noteq> None"
proof (induction xs arbitrary: ys)
  case Nil
  then show ?case by simp
next
  case (Cons x xs)
  from Cons.prems(1) obtain ws where ws: "sort_lt key xs = Inr ws" and ins: "insort_lt key x ws = Inr ys"
    by (cases "sort_lt key xs") auto
  from Cons.prems(2) have "xs \<noteq> []" by auto
  then have "ws \<noteq> []" using sort_lt_Inr [OF ws] by auto
  then obtain w ws' where w: "ws = w # ws'" by (cases ws) auto
  have mem: "w \<in> set xs" using sort_lt_Inr [OF ws] w by auto
  from ins w have kx: "key x \<noteq> None" and kw: "key w \<noteq> None"
    using insort_lt_compares [of key x w ws' ys] by auto
  have "\<forall>z \<in> set xs. key z \<noteq> None"
  proof (cases "2 \<le> length xs")
    case True
    then show ?thesis using Cons.IH [OF ws] by simp
  next
    case False
    then obtain z where "xs = [z]" using \<open>xs \<noteq> []\<close>
      by (cases xs) (auto simp: not_le less_Suc_eq numeral_2_eq_2)
    then show ?thesis using mem kw by simp
  qed
  then show ?case using kx by simp
qed

lemma sort_lt_raises_iff:
  "sort_lt key xs = Inl TypeError \<longleftrightarrow> 2 \<le> length xs \<and> (\<exists>x \<in> set xs. key x = None)"
proof
  assume err: "sort_lt key xs = Inl TypeError"
  have "\<exists>x \<in> set xs. key x = None"
  proof (rule ccontr)
    assume "\<not> (\<exists>x \<in> set xs. key x = None)"
    then have "\<exists>ys. sort_lt key xs = Inr ys" by (intro sort_lt_scored) auto
    with err show False by simp
  qed
  moreover have "2 \<le> length xs"
  proof (rule ccontr)
    assume "\<not> 2 \<le> length xs"
    then have "length xs < 2" by simp
    then have "xs = [] \<or> (\<exists>z. xs = [z])"
      by (cases xs) (auto simp: less_Suc_eq numeral_2_eq_2)
    with err show False by auto
  qed
  ultimately show "2 \<le> length xs \<and> (\<exists>x \<in> set xs. key x = None)" by simp
next
  assume a: "2 \<le> length xs \<and> (\<exists>x \<in> set xs. key x = None)"
  show "sort_lt key xs = Inl TypeError"
  proof (cases "sort_lt key xs")
    case (Inl e)
    then show ?thesis using sort_lt_error [OF Inl] by simp
  next
    case (Inr ys)
    then have "\<forall>x \<in> set xs. key x \<noteq> None" using a by (intro sort_lt_compares) auto
    with a show ?thesis by auto
  qed
qed

text \<open>
  C3. The claim is that a location without importance is sorted last and that the call does
  not fail. The code compares the importances with \<^verbatim>\<open><\<close>, also when one is
  \<^verbatim>\<open>None\<close>: for the importances 0.3, 0.9, \<^verbatim>\<open>None\<close>, 0.5 it raises \<^verbatim>\<open>TypeError\<close>.
\<close>

theorem sort_by_importance_none_raises:
  "sort_by_importance
     [(place 1 0 0)\<lparr>importance := Some (3 / 10)\<rparr>,
      (place 2 0 0)\<lparr>importance := Some (9 / 10)\<rparr>,
      place 3 0 0,
      (place 4 0 0)\<lparr>importance := Some (5 / 10)\<rparr>] = Inl TypeError"
  by (simp add: sort_by_importance_def sorted_py_def place_def)

lemma sort_by_importance_scored:
  "sort_by_importance
     [(place 1 0 0)\<lparr>importance := Some (3 / 10)\<rparr>,
      (place 2 0 0)\<lparr>importance := Some (9 / 10)\<rparr>,
      (place 3 0 0)\<lparr>importance := Some (3 / 10)\<rparr>,
      (place 4 0 0)\<lparr>importance := Some (5 / 10)\<rparr>] =
   Inr [(place 2 0 0)\<lparr>importance := Some (9 / 10)\<rparr>,
        (place 4 0 0)\<lparr>importance := Some (5 / 10)\<rparr>,
        (place 1 0 0)\<lparr>importance := Some (3 / 10)\<rparr>,
        (place 3 0 0)\<lparr>importance := Some (3 / 10)\<rparr>]"
  by (simp add: sort_by_importance_def sorted_py_def place_def)

text \<open>
  In general the call raises \<^verbatim>\<open>TypeError\<close> exactly when there are at least two
  locations and one of them has no importance.
\<close>

lemma sort_by_importance_raises_iff:
  "sort_by_importance locations = Inl TypeError \<longleftrightarrow>
     2 \<le> length locations \<and> (\<exists>loc \<in> set locations. importance loc = None)"
proof -
  have "sort_by_importance locations = Inl TypeError \<longleftrightarrow>
      sort_lt importance (rev locations) = Inl TypeError"
    by (cases "sort_lt importance (rev locations)")
      (simp_all add: sort_by_importance_def sorted_py_def)
  then show ?thesis by (simp add: sort_lt_raises_iff)
qed

subsection \<open>search\_multiple\<close>

text \<open>
  C4. For an ordered sequence of queries, \<open>search_multiple\<close> returns a sequence of the
  same length in which slot \<open>i\<close> holds the outcome of the search for query \<open>i\<close>, its
  list of locations or the error it raised; so no query's failure changes another slot.
\<close>

theorem search_multiple_aligned:
  "length (search_multiple float self session_get queries) = length queries \<and>
   (\<forall>i < length queries.
      search_multiple float self session_get queries ! i =
        search float self session_get (queries ! i))"
  by (simp add: search_multiple_def gather_return_exceptions_def)

theorem search_multiple_aligned_witness:
  "search_multiple digits_float client one_result
     [Q_str ''Paris'', Q_dict [K_limit 0], Q_str ''Rome''] =
   [Inr [place 1 0 0], Inl ValidationError, Inr [place 1 0 0]]"
proof -
  let ?qs = "[Q_str ''Paris'', Q_dict [K_limit 0], Q_str ''Rome'']"
  let ?rs = "search_multiple digits_float client one_result ?qs"
  have first: "search digits_float client one_result (Q_str ''Paris'') = Inr [place 1 0 0]"
    by (simp add: search_def SearchParams_init_def assign_def one_result_def
        Location_init_def and_then_def item_def place_def)
  have second: "search digits_float client one_result (Q_dict [K_limit 0]) = Inl ValidationError"
    by (simp add: search_def SearchParams_init_def assign_def validate_limit_def)
  have third: "search digits_float client one_result (Q_str ''Rome'') = Inr [place 1 0 0]"
    by (simp add: search_def SearchParams_init_def assign_def one_result_def
        Location_init_def and_then_def item_def place_def)
  note inst = search_multiple_aligned [of digits_float client one_result ?qs]
  from inst have len: "length ?rs = 3" by simp
  from inst have "?rs ! 0 = search digits_float client one_result (?qs ! 0)" by simp
  then have r0: "?rs ! 0 = Inr [place 1 0 0]" using first by simp
  from inst have "?rs ! 1 = search digits_float client one_result (?qs ! 1)" by simp
  then have r1: "?rs ! 1 = Inl ValidationError" using second by simp
  from inst have "?rs ! 2 = search digits_float client one_result (?qs ! 2)" by simp
  then have r2: "?rs ! 2 = Inr [place 1 0 0]" using third by simp
  from len obtain a b c where abc: "?rs = [a, b, c]"
    by (auto simp: length_Suc_conv numeral_eq_Suc)
  then show ?thesis using r0 r1 r2 by simp
qed

subsection \<open>Serialization of SearchParams\<close>

lemma map_of_filter_distinct:
  "distinct (map fst xs) \<Longrightarrow>
   map_of (filter P xs) k =
     (case map_of xs k of None \<Rightarrow> None | Some v \<Rightarrow> if P (k, v) then Some v else None)"
proof (induction xs)
  case Nil
  then show ?case by simp
next
  case (Cons x xs)
  obtain k' v' where x: "x = (k', v')" by (cases x)
  have notin: "map_of xs k' = None" using Cons.prems x by (simp add: map_of_eq_None_iff)
  show ?case using Cons x notin by (auto split: option.splits)
qed

lemma distinct_model_items: "distinct (map fst (model_items p))"
  by (simp add: model_items_def)

lemma map_of_model_dump:
  "map_of (model_dump True True p) name =
     (case map_of (model_items p) name of
        None \<Rightarrow> None
      | Some v \<Rightarrow> if name \<in> model_fields_set p \<and> v \<noteq> PNone then Some v else None)"
  unfolding model_dump_def
  by (simp add: map_of_filter_distinct [OF distinct_model_items] split: option.splits)

text \<open>
  C5, as claimed, fails: a query given as the empty string is an explicitly set field that
  is empty, and it is in the mapping (beside \<open>format\<close>, which was not set explicitly).
\<close>

theorem params_dict_keeps_empty_string:
  "SearchParams_init digits_float [K_q (Some '''')] =
     Inr (SearchParams_defaults\<lparr>q := Some '''', model_fields_set := {''q''}\<rparr>) \<and>
   params_dict (SearchParams_defaults\<lparr>q := Some '''', model_fields_set := {''q''}\<rparr>) =
     [(''q'', PStr ''''), (''format'', PStr ''jsonv2'')]"
  by (simp add: SearchParams_init_def assign_def SearchParams_defaults_def params_dict_def
      model_dump_def model_items_def)

text \<open>
  C5, amended. The mapping produced for transmission has each key once; it holds
  \<open>format\<close> with the value \<open>jsonv2\<close> whatever the instance's format is and whether
  or not it was set; and any other field is in it, with its value, exactly when the field
  was explicitly set and its value is not \<^verbatim>\<open>None\<close> (an empty string is kept).
\<close>

theorem params_dict_contents:
  "distinct (map fst (params_dict p)) \<and>
   map_of (params_dict p) ''format'' = Some (PStr ''jsonv2'') \<and>
   (\<forall>name v. name \<noteq> ''format'' \<longrightarrow>
      (map_of (params_dict p) name = Some v \<longleftrightarrow>
         name \<in> model_fields_set p \<and> map_of (model_items p) name = Some v \<and> v \<noteq> PNone))"
proof -
  have "distinct (map fst (model_dump True True p))"
    unfolding model_dump_def by (rule distinct_map_filter) (rule distinct_model_items)
  then have one: "distinct (map fst (params_dict p))"
    by (simp add: params_dict_def distinct_update)
  have two: "map_of (params_dict p) ''format'' = Some (PStr ''jsonv2'')"
    by (simp add: params_dict_def update_conv')
  have three: "map_of (params_dict p) name = Some v \<longleftrightarrow>
      name \<in> model_fields_set p \<and> map_of (model_items p) name = Some v \<and> v \<noteq> PNone"
    if "name \<noteq> ''format''" for name v
    using that by (auto simp: params_dict_def update_conv' map_of_model_dump split: option.splits)
  show ?thesis using one two three by blast
qed

theorem params_dict_contents_witness:
  "map_of (params_dict (SearchParams_defaults\<lparr>q := Some ''Paris'', city := None,
       format := ''xml'', model_fields_set := {''q'', ''city'', ''format''}\<rparr>)) ''format''
     = Some (PStr ''jsonv2'') \<and>
   map_of (params_dict (SearchParams_defaults\<lparr>q := Some ''Paris'', city := None,
       format := ''xml'', model_fields_set := {''q'', ''city'', ''format''}\<rparr>)) ''q''
     = Some (PStr ''Paris'') \<and>
   map_of (params_dict (SearchParams_defaults\<lparr>q := Some ''Paris'', city := None,
       format := ''xml'', model_fields_set := {''q'', ''city'', ''format''}\<rparr>)) ''city''
     \<noteq> Some PNone \<and>
   map_of (params_dict (SearchParams_defaults\<lparr>q := Some ''Paris'', city := None,
       format := ''xml'', model_fields_set := {''q'', ''city'', ''format''}\<rparr>)) ''limit''
     \<noteq> Some (PInt 10)"
proof -
  let ?p = "SearchParams_defaults\<lparr>q := Some ''Paris'', city := None,
       format := ''xml'', model_fields_set := {''q'', ''city'', ''format''}\<rparr>"
  note inst = params_dict_contents [of ?p]
  note fmt = inst [THEN conjunct2, THEN conjunct1]
  note other = inst [THEN conjunct2, THEN conjunct2, rule_format]
  have qv: "map_of (params_dict ?p) ''q'' = Some (PStr ''Paris'')"
    by (subst other) (simp_all add: model_items_def SearchParams_defaults_def)
  have cv: "map_of (params_dict ?p) ''city'' \<noteq> Some PNone"
    by (subst other) simp_all
  have lv: "map_of (params_dict ?p) ''limit'' \<noteq> Some (PInt 10)"
    by (subst other) simp_all
  show ?thesis using fmt qv cv lv by (simp only: simp_thms)
qed

subsection \<open>The viewbox\<close>

lemma length_split: "length (split sep s) = Suc (length (filter (\<lambda>c. c = sep) s))"
  by (induction s) (auto split: list.splits)

lemma set_kwarg_error: "set_kwarg float kw p = Inl e \<Longrightarrow> e = ValidationError"
  by (cases kw) (auto simp: assign_def split: sum.splits)

lemma set_kwargs_error: "set_kwargs float kws p = Inl e \<Longrightarrow> e = ValidationError"
  by (induction kws arbitrary: p) (auto split: sum.splits dest: set_kwarg_error)

lemma validate_viewbox_cases:
  "s \<noteq> [] \<Longrightarrow>
   validate_viewbox float (Some s) =
     (if length (split CHR '','' s) \<noteq> 4
      then Inl (ValueError ''Viewbox must have four comma-separated values.'')
      else if \<not> list_all (\<lambda>tok. float tok \<noteq> None) (split CHR '','' s)
      then Inl (ValueError ''Viewbox coordinates must be floating-point numbers.'')
      else Inr (Some s))"
  by (simp add: validate_viewbox_def Let_def list_ex_iff list_all_iff)

lemma set_kwargs_bad_viewbox:
  assumes "s \<noteq> []" and "\<not> four_floats float s" and "K_viewbox (Some s) \<in> set kws"
  shows "set_kwargs float kws p = Inl ValidationError"
  using assms(3)
proof (induction kws arbitrary: p)
  case Nil
  then show ?case by simp
next
  case (Cons kw kws)
  show ?case
  proof (cases "set_kwarg float kw p")
    case (Inl e)
    then show ?thesis using set_kwarg_error [OF Inl] by simp
  next
    case (Inr p')
    have "kw \<noteq> K_viewbox (Some s)"
    proof
      assume "kw = K_viewbox (Some s)"
      then have "set_kwarg float kw p = Inl ValidationError"
        using assms(1,2) by (auto simp: assign_def validate_viewbox_cases four_floats_def)
      with Inr show False by simp
    qed
    then have "K_viewbox (Some s) \<in> set kws" using Cons.prems by simp
    then show ?thesis using Cons.IH Inr by simp
  qed
qed

text \<open>
  C6, as claimed, fails: the empty string is not four comma-separated tokens (it is one
  empty token), and construction with it as viewbox succeeds.
\<close>

theorem empty_viewbox_is_accepted:
  "length (split CHR '','' '''') = 1 \<and>
   SearchParams_init digits_float [K_viewbox (Some '''')] =
     Inr (SearchParams_defaults\<lparr>viewbox := Some '''', model_fields_set := {''viewbox''}\<rparr>)"
  by (simp add: SearchParams_init_def assign_def validate_viewbox_def SearchParams_defaults_def)

text \<open>
  C6, amended. For every non-empty viewbox string: when it is exactly four
  comma-separated tokens that \<open>float\<close> parses, the validator returns it and the field
  is set; otherwise the validator raises \<^verbatim>\<open>ValueError\<close> and every construction that
  is given this viewbox fails with a validation error. The empty string is accepted
  without a check.
\<close>

theorem validate_viewbox_nonempty:
  "validate_viewbox float (Some '''') = Inr (Some '''') \<and>
   (s \<noteq> '''' \<and> four_floats float s \<longrightarrow>
      validate_viewbox float (Some s) = Inr (Some s) \<and>
      set_kwarg float (K_viewbox (Some s)) p =
        Inr (p\<lparr>viewbox := Some s, model_fields_set := insert ''viewbox'' (model_fields_set p)\<rparr>)) \<and>
   (s \<noteq> '''' \<and> \<not> four_floats float s \<longrightarrow>
      (\<exists>msg. validate_viewbox float (Some s) = Inl (ValueError msg)) \<and>
      (\<forall>kwargs. K_viewbox (Some s) \<in> set kwargs \<longrightarrow>
         SearchParams_init float kwargs = Inl ValidationError))"
proof -
  have empty: "validate_viewbox float (Some '''') = Inr (Some '''')"
    by (simp add: validate_viewbox_def)
  have good: "validate_viewbox float (Some s) = Inr (Some s) \<and>
      set_kwarg float (K_viewbox (Some s)) p =
        Inr (p\<lparr>viewbox := Some s, model_fields_set := insert ''viewbox'' (model_fields_set p)\<rparr>)"
    if "s \<noteq> ''''" and "four_floats float s"
    using that by (simp add: validate_viewbox_cases four_floats_def assign_def)
  have bad1: "\<exists>msg. validate_viewbox float (Some s) = Inl (ValueError msg)"
    if "s \<noteq> ''''" and "\<not> four_floats float s"
    using that by (auto simp: validate_viewbox_cases four_floats_def)
  have bad2: "SearchParams_init float kwargs = Inl ValidationError"
    if "s \<noteq> ''''" and "\<not> four_floats float s" and "K_viewbox (Some s) \<in> set kwargs" for kwargs
    unfolding SearchParams_init_def using that by (rule set_kwargs_bad_viewbox)
  show ?thesis using empty good bad1 bad2 by blast
qed

theorem validate_viewbox_nonempty_witness:
  "validate_viewbox digits_float (Some ''1,2,3,4'') = Inr (Some ''1,2,3,4'') \<and>
   (\<exists>msg. validate_viewbox digits_float (Some ''1,2,3'') = Inl (ValueError msg)) \<and>
   SearchParams_init digits_float [K_q (Some ''Paris''), K_viewbox (Some ''1,2,3,x'')] =
     Inl ValidationError"
proof -
  have ok: "''1,2,3,4'' \<noteq> '''' \<and> four_floats digits_float ''1,2,3,4''"
    by (simp add: four_floats_def digits_float_def)
  have three: "''1,2,3'' \<noteq> '''' \<and> \<not> four_floats digits_float ''1,2,3''"
    by (simp add: four_floats_def)
  have letter: "''1,2,3,x'' \<noteq> '''' \<and> \<not> four_floats digits_float ''1,2,3,x''"
    by (simp add: four_floats_def digits_float_def)
  have mem: "K_viewbox (Some ''1,2,3,x'') \<in> set [K_q (Some ''Paris''), K_viewbox (Some ''1,2,3,x'')]"
    by simp
  from validate_viewbox_nonempty [of digits_float "''1,2,3,4''"] ok
  have a: "validate_viewbox digits_float (Some ''1,2,3,4'') = Inr (Some ''1,2,3,4'')" by blast
  from validate_viewbox_nonempty [of digits_float "''1,2,3''"] three
  have b: "\<exists>msg. validate_viewbox digits_float (Some ''1,2,3'') = Inl (ValueError msg)" by blast
  from validate_viewbox_nonempty [of digits_float "''1,2,3,x''"] letter mem
  have c: "SearchParams_init digits_float [K_q (Some ''Paris''), K_viewbox (Some ''1,2,3,x'')] =
     Inl ValidationError" by blast
  show ?thesis using a b c by simp
qed

end
